theory Spec2Isabelle
  imports Complex_Main
begin

section \<open>JavaScript strings\<close>


definition is_lower :: "char \<Rightarrow> bool" where
  \<comment> \<open>the class \<open>[a-z]\<close>\<close>
  "is_lower c = (c \<in> set ''abcdefghijklmnopqrstuvwxyz'')"

definition is_digit :: "char \<Rightarrow> bool" where
  \<comment> \<open>the class \<open>[0-9]\<close>\<close>
  "is_digit c = (c \<in> set ''0123456789'')"

definition is_lower_or_digit :: "char \<Rightarrow> bool" where
  \<comment> \<open>the class \<open>[a-z0-9]\<close>\<close>
  "is_lower_or_digit c = (is_lower c \<or> is_digit c)"

definition is_space :: "char \<Rightarrow> bool" where
  \<comment> \<open>the class \<open>\s\<close>, which is also what \<open>trim\<close> strips: TAB, LF, VT, FF, CR, space, NBSP\<close>
  "is_space c = (c \<in> set [CHR 0x09, CHR 0x0A, CHR 0x0B, CHR 0x0C, CHR 0x0D, CHR 0x20, CHR 0xA0])"

definition lower_char :: "char \<Rightarrow> char" where
  \<comment> \<open>\<open>toLowerCase\<close> on one character\<close>
  "lower_char c =
     (case map_of (zip ''ABCDEFGHIJKLMNOPQRSTUVWXYZ'' ''abcdefghijklmnopqrstuvwxyz'') c of
        Some l \<Rightarrow> l
      | None \<Rightarrow> c)"

definition upper_char :: "char \<Rightarrow> char" where
  \<comment> \<open>\<open>toUpperCase\<close> on one character\<close>
  "upper_char c =
     (case map_of (zip ''abcdefghijklmnopqrstuvwxyz'' ''ABCDEFGHIJKLMNOPQRSTUVWXYZ'') c of
        Some u \<Rightarrow> u
      | None \<Rightarrow> c)"

definition digit_val :: "char \<Rightarrow> nat" where
  "digit_val c =
     (case map_of (zip ''0123456789'' [0, 1, 2, 3, 4, 5, 6, 7, 8, 9]) c of
        Some d \<Rightarrow> d
      | None \<Rightarrow> 0)"

definition toLowerCase :: "string \<Rightarrow> string" where
  "toLowerCase s = map lower_char s"

definition trim :: "string \<Rightarrow> string" where
  "trim s = rev (dropWhile is_space (rev (dropWhile is_space s)))"

fun startsWith :: "string \<Rightarrow> string \<Rightarrow> bool" where
  "startsWith s [] = True"
| "startsWith [] (p # ps) = False"
| "startsWith (c # s) (p # ps) = (if c = p then startsWith s ps else False)"

definition endsWith :: "string \<Rightarrow> string \<Rightarrow> bool" where
  "endsWith s p = (length p \<le> length s \<and> drop (length s - length p) s = p)"

fun str_includes :: "string \<Rightarrow> string \<Rightarrow> bool" where
  "str_includes [] p = (p = [])"
| "str_includes (c # s) p = (startsWith (c # s) p \<or> str_includes s p)"

fun indexOf :: "string \<Rightarrow> string \<Rightarrow> nat option" where
  \<comment> \<open>\<open>s.indexOf(p)\<close>, with \<open>None\<close> for \<open>-1\<close>\<close>
  "indexOf [] p = (if p = [] then Some 0 else None)"
| "indexOf (c # s) p =
     (if startsWith (c # s) p then Some 0 else map_option Suc (indexOf s p))"

fun lastIndexOf :: "string \<Rightarrow> string \<Rightarrow> nat option" where
  "lastIndexOf [] p = (if p = [] then Some 0 else None)"
| "lastIndexOf (c # s) p =
     (case lastIndexOf s p of
        Some i \<Rightarrow> Some (Suc i)
      | None \<Rightarrow> if startsWith (c # s) p then Some 0 else None)"

fun split_first :: "char \<Rightarrow> string \<Rightarrow> string" where
  \<comment> \<open>\<open>s.split(d)[0]\<close>: the part before the first \<open>d\<close>, the whole string if there is none\<close>
  "split_first d s = takeWhile (\<lambda>c. c \<noteq> d) s"

section \<open>Regular expressions\<close>

text \<open>
  The regular expressions of the source are all sequences of literals and of quantified
  character classes, some of them inside a capture group, with an optional end anchor.
  They are matched the way the language does it: at the leftmost position where a match
  exists, each quantifier trying its repetitions in its own order (greedy: longest
  first; lazy: shortest first) and backtracking when the rest of the expression fails.
\<close>

datatype quant = One | Opt | Star | Plus | LazyStar

datatype item =
    Lit string                      \<comment> \<open>a literal\<close>
  | LitI string string              \<comment> \<open>a literal under the flag \<open>i\<close>: its lower-case and upper-case spelling\<close>
  | Cls "char \<Rightarrow> bool" quant        \<comment> \<open>a quantified character class\<close>
  | Cap "char \<Rightarrow> bool" quant        \<comment> \<open>the same inside a capture group\<close>
  | End                             \<comment> \<open>the anchor \<open>$\<close>\<close>

type_synonym regex = "item list"

fun fold_case :: "item \<Rightarrow> item" where
  "fold_case (Lit l) = LitI (map lower_char l) (map upper_char l)"
| "fold_case it = it"

definition prepare :: "bool \<Rightarrow> regex \<Rightarrow> regex" where
  \<comment> \<open>the flag \<open>i\<close> lets every literal character stand for both of its cases; the classes
      of the source's expressions with this flag hold no letters\<close>
  "prepare ic r = (if ic then map fold_case r else r)"

fun lit_match :: "string \<Rightarrow> string \<Rightarrow> string option" where
  \<comment> \<open>the input after the literal, when the input opens with it\<close>
  "lit_match [] s = Some s"
| "lit_match (l # ls) [] = None"
| "lit_match (l # ls) (c # s) = (if c = l then lit_match ls s else None)"

fun liti_match :: "string \<Rightarrow> string \<Rightarrow> string \<Rightarrow> string option" where
  "liti_match [] us s = Some s"
| "liti_match (l # ls) [] s = None"
| "liti_match (l # ls) (u # us) [] = None"
| "liti_match (l # ls) (u # us) (c # s) = (if c = l \<or> c = u then liti_match ls us s else None)"

fun rep :: "quant \<Rightarrow> (char \<Rightarrow> bool) \<Rightarrow> (string \<Rightarrow> 'a option) \<Rightarrow> string \<Rightarrow> 'a option" where
  \<comment> \<open>a quantified class followed by the rest of the expression, \<open>k\<close>: the repetitions are
      tried in the order of the quantifier until the rest matches\<close>
  "rep One P k [] = None"
| "rep One P k (c # s) = (if P c then k s else None)"
| "rep Opt P k [] = k []"
| "rep Opt P k (c # s) =
     (if P c then (case k s of Some r \<Rightarrow> Some r | None \<Rightarrow> k (c # s)) else k (c # s))"
| "rep Star P k [] = k []"
| "rep Star P k (c # s) =
     (if P c then (case rep Star P k s of Some r \<Rightarrow> Some r | None \<Rightarrow> k (c # s)) else k (c # s))"
| "rep Plus P k [] = None"
| "rep Plus P k (c # s) = (if P c then rep Star P k s else None)"
| "rep LazyStar P k [] = k []"
| "rep LazyStar P k (c # s) =
     (case k (c # s) of
        Some r \<Rightarrow> Some r
      | None \<Rightarrow> if P c then rep LazyStar P k s else None)"

fun rx_match :: "regex \<Rightarrow> string \<Rightarrow> (string list \<times> string) option" where
  \<comment> \<open>match at the start of \<open>s\<close>: the captures and the input left after the match\<close>
  "rx_match [] s = Some ([], s)"
| "rx_match (Lit l # r) s =
     (case lit_match l s of None \<Rightarrow> None | Some rest \<Rightarrow> rx_match r rest)"
| "rx_match (LitI lo up # r) s =
     (case liti_match lo up s of None \<Rightarrow> None | Some rest \<Rightarrow> rx_match r rest)"
| "rx_match (Cls P q # r) s = rep q P (\<lambda>rest. rx_match r rest) s"
| "rx_match (Cap P q # r) s =
     rep q P (\<lambda>rest. case rx_match r rest of
                        None \<Rightarrow> None
                      | Some (caps, rest') \<Rightarrow>
                          Some (take (length s - length rest) s # caps, rest')) s"
| "rx_match (End # r) s = (if s = [] then rx_match r s else None)"

record rmatch =
  index :: nat          \<comment> \<open>where the match starts\<close>
  gap :: string         \<comment> \<open>the input between the previous match (or the start) and this one\<close>
  whole :: string       \<comment> \<open>the matched text, \<open>match[0]\<close>\<close>
  groups :: "string list"  \<comment> \<open>\<open>match[1]\<close>, \<open>match[2]\<close>, ...\<close>

fun rx_scan :: "regex \<Rightarrow> nat \<Rightarrow> nat \<Rightarrow> string \<Rightarrow> string \<Rightarrow> rmatch list" where
  \<comment> \<open>all matches from left to right, as the flag \<open>g\<close> finds them: after a match the search
      resumes where it ended, one character further if it was empty. \<open>skip\<close> counts the
      characters still inside the last match, \<open>i\<close> is the position, \<open>g\<close> the gap so far, reversed.\<close>
  "rx_scan r skip i g [] =
     (if skip = 0 then
        (case rx_match r [] of
           None \<Rightarrow> []
         | Some (caps, rest) \<Rightarrow> [\<lparr>index = i, gap = rev g, whole = [], groups = caps\<rparr>])
      else [])"
| "rx_scan r skip i g (c # s) =
     (if 0 < skip then rx_scan r (skip - 1) (Suc i) g s
      else
        (case rx_match r (c # s) of
           None \<Rightarrow> rx_scan r 0 (Suc i) (c # g) s
         | Some (caps, rest) \<Rightarrow>
             (let n = length (c # s) - length rest
              in \<lparr>index = i, gap = rev g, whole = take n (c # s), groups = caps\<rparr>
                 # (if n = 0 then rx_scan r 0 (Suc i) [c] s
                    else rx_scan r (n - 1) (Suc i) [] s))))"

definition rx_all :: "bool \<Rightarrow> regex \<Rightarrow> string \<Rightarrow> rmatch list" where
  \<comment> \<open>the matches of \<open>s.match(re)\<close> with the flag \<open>g\<close>, and of a loop
      \<open>while ((m = re.exec(s)) !== null)\<close> over an expression that cannot match the empty string\<close>
  "rx_all ic r s = rx_scan (prepare ic r) 0 0 [] s"

fun rx_search :: "regex \<Rightarrow> nat \<Rightarrow> string \<Rightarrow> string \<Rightarrow> rmatch option" where
  \<comment> \<open>the leftmost match: \<open>s.match(re)\<close> and \<open>re.exec(s)\<close> without the flag \<open>g\<close>\<close>
  "rx_search r i g [] =
     (case rx_match r [] of
        None \<Rightarrow> None
      | Some (caps, rest) \<Rightarrow> Some \<lparr>index = i, gap = rev g, whole = [], groups = caps\<rparr>)"
| "rx_search r i g (c # s) =
     (case rx_match r (c # s) of
        None \<Rightarrow> rx_search r (Suc i) (c # g) s
      | Some (caps, rest) \<Rightarrow>
          Some \<lparr>index = i, gap = rev g,
                whole = take (length (c # s) - length rest) (c # s), groups = caps\<rparr>)"

definition rx_first :: "bool \<Rightarrow> regex \<Rightarrow> string \<Rightarrow> rmatch option" where
  "rx_first ic r s = rx_search (prepare ic r) 0 [] s"

definition rx_test :: "bool \<Rightarrow> regex \<Rightarrow> string \<Rightarrow> bool" where
  "rx_test ic r s = (rx_first ic r s \<noteq> None)"

definition after_match :: "string \<Rightarrow> rmatch \<Rightarrow> string" where
  \<comment> \<open>the input that follows a match\<close>
  "after_match s m = drop (index m + length (whole m)) s"

subsection \<open>Replacement\<close>

fun expand :: "string \<Rightarrow> string \<Rightarrow> string \<Rightarrow> string list \<Rightarrow> string \<Rightarrow> string" where
  \<comment> \<open>the replacement text of \<open>String.prototype.replace\<close>: \<open>$$\<close>, \<open>$&\<close>, \<open>$`\<close>, \<open>$'\<close> and
      \<open>$n\<close>, \<open>$nn\<close> stand for a dollar, the match, the text before it, the text after it
      and a capture; any other dollar is itself\<close>
  "expand m pre post caps [] = []"
| "expand m pre post caps [c] = [c]"
| "expand m pre post caps (c # d # r) =
     (if c \<noteq> CHR ''$'' then c # expand m pre post caps (d # r)
      else if d = CHR ''$'' then CHR ''$'' # expand m pre post caps r
      else if d = CHR ''&'' then m @ expand m pre post caps r
      else if d = CHR 0x60 then pre @ expand m pre post caps r
      else if d = CHR 0x27 then post @ expand m pre post caps r
      else if is_digit d then
        (case r of
           e # r' \<Rightarrow>
             (if is_digit e \<and> 1 \<le> 10 * digit_val d + digit_val e
                 \<and> 10 * digit_val d + digit_val e \<le> length caps
              then caps ! (10 * digit_val d + digit_val e - 1) @ expand m pre post caps r'
              else if 1 \<le> digit_val d \<and> digit_val d \<le> length caps
              then caps ! (digit_val d - 1) @ expand m pre post caps r
              else c # expand m pre post caps (d # r))
         | [] \<Rightarrow>
             (if 1 \<le> digit_val d \<and> digit_val d \<le> length caps
              then caps ! (digit_val d - 1) @ expand m pre post caps r
              else c # expand m pre post caps (d # r)))
      else c # expand m pre post caps (d # r))"

definition replace_str :: "string \<Rightarrow> string \<Rightarrow> string \<Rightarrow> string" where
  \<comment> \<open>\<open>s.replace(pat, repl)\<close> with a string pattern: the first occurrence only\<close>
  "replace_str s pat repl =
     (case indexOf s pat of
        None \<Rightarrow> s
      | Some i \<Rightarrow>
          take i s @ expand pat (take i s) (drop (i + length pat) s) [] repl
          @ drop (i + length pat) s)"

definition replace_rx :: "bool \<Rightarrow> regex \<Rightarrow> string \<Rightarrow> string \<Rightarrow> string" where
  \<comment> \<open>\<open>s.replace(re, repl)\<close> with an expression without the flag \<open>g\<close>\<close>
  "replace_rx ic r s repl =
     (case rx_first ic r s of
        None \<Rightarrow> s
      | Some m \<Rightarrow>
          take (index m) s @ expand (whole m) (take (index m) s) (after_match s m) (groups m) repl
          @ after_match s m)"


section \<open>The font extractor (\<open>extractFontsFromSVG\<close>, font-manager.js)\<close>

definition is_quote :: "char \<Rightarrow> bool" where
  \<comment> \<open>the class \<open>['"]\<close>\<close>
  "is_quote c = (c = CHR 0x27 \<or> c = CHR 0x22)"

definition name_char :: "char \<Rightarrow> bool" where
  \<comment> \<open>the class \<open>[^'",;]\<close>\<close>
  "name_char c = (\<not> is_quote c \<and> c \<noteq> CHR '','' \<and> c \<noteq> CHR '';'')"

definition not_quote :: "char \<Rightarrow> bool" where
  \<comment> \<open>the class \<open>[^"']\<close>\<close>
  "not_quote c = (\<not> is_quote c)"

definition not_gt :: "char \<Rightarrow> bool" where
  \<comment> \<open>the class \<open>[^>]\<close>\<close>
  "not_gt c = (c \<noteq> CHR ''>'')"

definition not_brace :: "char \<Rightarrow> bool" where
  \<comment> \<open>the class \<open>[^}]\<close>\<close>
  "not_brace c = (c \<noteq> CHR ''}'')"

definition any_char :: "char \<Rightarrow> bool" where
  \<comment> \<open>the class \<open>[\s\S]\<close>\<close>
  "any_char c = True"

definition fontFamilyRegex :: regex where
  \<comment> \<open>\<open>/font-family\s*:\s*['"]?([^'",;]+)['"]?/g\<close>\<close>
  "fontFamilyRegex =
     [Lit ''font-family'', Cls is_space Star, Lit '':'', Cls is_space Star,
      Cls is_quote Opt, Cap name_char Plus, Cls is_quote Opt]"

definition fontAttrRegex :: regex where
  \<comment> \<open>\<open>/font-family\s*=\s*["']([^"']+)["']/g\<close>\<close>
  "fontAttrRegex =
     [Lit ''font-family'', Cls is_space Star, Lit ''='', Cls is_space Star,
      Cls is_quote One, Cap not_quote Plus, Cls is_quote One]"

definition cssRegex :: regex where
  \<comment> \<open>\<open>/<style[^>]*>([\s\S]*?)<\/style>/g\<close>\<close>
  "cssRegex = [Lit ''<style'', Cls not_gt Star, Lit ''>'', Cap any_char LazyStar, Lit ''</style>'']"

definition elemAttrRegex :: "string \<Rightarrow> regex" where
  \<comment> \<open>\<open>/<tspan[^>]*font-family\s*=\s*["']([^"']+)["'][^>]*>/g\<close>, and the same for \<open><text\<close>\<close>
  "elemAttrRegex tag =
     [Lit tag, Cls not_gt Star, Lit ''font-family'', Cls is_space Star, Lit ''='',
      Cls is_space Star, Cls is_quote One, Cap not_quote Plus, Cls is_quote One,
      Cls not_gt Star, Lit ''>'']"

definition tspanRegex :: regex where
  "tspanRegex = elemAttrRegex ''<tspan''"

definition textRegex :: regex where
  "textRegex = elemAttrRegex ''<text''"

definition fontFaceRegex :: regex where
  \<comment> \<open>\<open>/@font-face\s*{[^}]*?font-family\s*:\s*['"]?([^'",;]+)['"]?[^}]*?}/g\<close>\<close>
  "fontFaceRegex =
     [Lit ''@font-face'', Cls is_space Star, Lit ''{'', Cls not_brace LazyStar,
      Lit ''font-family'', Cls is_space Star, Lit '':'', Cls is_space Star,
      Cls is_quote Opt, Cap name_char Plus, Cls is_quote Opt,
      Cls not_brace LazyStar, Lit ''}'']"

definition group1 :: "rmatch \<Rightarrow> string" where
  \<comment> \<open>\<open>match[1]\<close>\<close>
  "group1 m = (case groups m of [] \<Rightarrow> [] | g # _ \<Rightarrow> g)"

definition set_add :: "string list \<Rightarrow> string \<Rightarrow> string list" where
  \<comment> \<open>\<open>Set.prototype.add\<close> on a set kept in insertion order\<close>
  "set_add xs x = (if x \<in> set xs then xs else xs @ [x])"

definition add_matches :: "regex \<Rightarrow> string \<Rightarrow> string list \<Rightarrow> string list" where
  \<comment> \<open>one \<open>while ((match = re.exec(text)) !== null) fontFamilies.add(match[1].trim())\<close> loop\<close>
  "add_matches re text fams = foldl set_add fams (map (\<lambda>m. trim (group1 m)) (rx_all False re text))"

definition extractFontsFromSVG :: "string \<Rightarrow> string list" where
  "extractFontsFromSVG svgContent =
     (let fontFamilies = [];
          fontFamilies = add_matches fontFamilyRegex svgContent fontFamilies;
          fontFamilies = add_matches fontAttrRegex svgContent fontFamilies;
          fontFamilies = foldl (\<lambda>fams cssMatch. add_matches fontFamilyRegex (group1 cssMatch) fams)
                           fontFamilies (rx_all False cssRegex svgContent);
          fontFamilies = add_matches tspanRegex svgContent fontFamilies;
          fontFamilies = add_matches textRegex svgContent fontFamilies;
          fontFamilies = add_matches fontFaceRegex svgContent fontFamilies
      in map (\<lambda>font. trim (split_first (CHR '','') font)) fontFamilies)"

section \<open>The local font index (\<open>fontExistsLocally\<close>, font-manager.js)\<close>

text \<open>
  \<open>path.extname\<close> and \<open>path.basename(f, ext)\<close> of Node, on a directory entry (a name
  without \<open>/\<close>): the extension runs from the last dot, unless that dot opens the name or
  the name is \<open>..\<close>.
\<close>

fun last_dot :: "string \<Rightarrow> nat option" where
  "last_dot s = lastIndexOf s ''.''"

definition extname :: "string \<Rightarrow> string" where
  "extname f =
     (case last_dot f of
        None \<Rightarrow> []
      | Some i \<Rightarrow> if i = 0 \<or> f = ''..'' then [] else drop i f)"

definition basename :: "string \<Rightarrow> string \<Rightarrow> string" where
  "basename f ext =
     (if ext \<noteq> [] \<and> length ext \<le> length f
      then (if ext = f then []
            else if endsWith f ext then take (length f - length ext) f else f)
      else f)"

definition normalize_name :: "string \<Rightarrow> string" where
  \<comment> \<open>\<open>s.toLowerCase().replace(/[^a-z0-9]/g, '')\<close>\<close>
  "normalize_name s = filter is_lower_or_digit (toLowerCase s)"

text \<open>
  \<open>fs.readdirSync\<close> either throws (\<open>None\<close>) or gives the names in the directory. The
  \<open>catch\<close> of the source turns the exception into \<open>false\<close>.
\<close>

definition fontExistsLocally :: "string \<Rightarrow> string list option \<Rightarrow> bool" where
  "fontExistsLocally fontName readdir =
     (case readdir of
        None \<Rightarrow> False
      | Some files \<Rightarrow>
          (let normalizedFontName = normalize_name fontName
           in list_ex (\<lambda>file. str_includes (normalize_name (basename file (extname file)))
                                 normalizedFontName) files))"

section \<open>The fonts directory, the environment and the remote catalog\<close>

text \<open>
  What the font manager reads and changes outside itself: the environment variable with
  the API key, the fonts directory (its files in the order \<open>readdirSync\<close> lists them,
  the mapping file \<open>type.xml\<close> among them), and the network. The answers of the network
  are part of the world; every request made is appended to \<open>requests\<close>.
\<close>

record catalog_item =
  item_family :: string
  item_regular :: "string option"   \<comment> \<open>\<open>files.regular\<close>, when present\<close>

datatype request = Get string | Head string

record world =
  apiKey :: "string option"
  fontsDir :: "(string \<times> string) list option"   \<comment> \<open>\<open>None\<close>: the directory does not exist\<close>
  abspath :: "string \<Rightarrow> string"                \<comment> \<open>\<open>path.resolve(fontsDir, file)\<close>\<close>
  catalog :: "catalog_item list option"           \<comment> \<open>the \<open>items\<close> of the catalog; \<open>None\<close>: no usable answer\<close>
  probe :: "string \<Rightarrow> bool"                     \<comment> \<open>does a HEAD request to the URL answer 200\<close>
  fetch :: "string \<Rightarrow> string option"            \<comment> \<open>the body a GET of the URL downloads, if it succeeds\<close>
  requests :: "request list"

definition readdirSync :: "world \<Rightarrow> string list option" where
  "readdirSync w = map_option (map fst) (fontsDir w)"

definition readFile :: "world \<Rightarrow> string \<Rightarrow> string option" where
  "readFile w name = (case fontsDir w of None \<Rightarrow> None | Some fs \<Rightarrow> map_of fs name)"

fun write_entry :: "string \<Rightarrow> string \<Rightarrow> (string \<times> string) list \<Rightarrow> (string \<times> string) list" where
  "write_entry name content [] = [(name, content)]"
| "write_entry name content ((n, c) # fs) =
     (if n = name then (n, content) # fs else (n, c) # write_entry name content fs)"

definition writeFile :: "string \<Rightarrow> string \<Rightarrow> world \<Rightarrow> world" where
  \<comment> \<open>\<open>fs.writeFileSync\<close> into the fonts directory, which exists wherever the source writes\<close>
  "writeFile name content w =
     (case fontsDir w of
        None \<Rightarrow> w
      | Some fs \<Rightarrow> w\<lparr>fontsDir := Some (write_entry name content fs)\<rparr>)"

section \<open>The font map writer (\<open>updateTypeXmlFile\<close>, font-manager.js)\<close>

definition nl :: string where
  "nl = [CHR 0x0A]"

definition strip_spaces :: "string \<Rightarrow> string" where
  \<comment> \<open>\<open>s.replace(/\s+/g, '')\<close>\<close>
  "strip_spaces s = filter (\<lambda>c. \<not> is_space c) s"

definition isFontFile :: "string \<Rightarrow> string \<Rightarrow> bool" where
  "isFontFile fontName file =
     (let normalizedName = toLowerCase (strip_spaces fontName)
      in startsWith (toLowerCase file) normalizedName \<and> endsWith (toLowerCase file) ''.ttf'')"

definition indexOf_from :: "string \<Rightarrow> string \<Rightarrow> nat \<Rightarrow> nat option" where
  \<comment> \<open>\<open>s.indexOf(p, start)\<close>\<close>
  "indexOf_from s p start =
     (let st = min start (length s) in map_option (\<lambda>k. k + st) (indexOf (drop st s) p))"

definition entryPattern :: "string \<Rightarrow> regex" where
  \<comment> \<open>\<open>new RegExp(`<type[^>]*family\\s*=\\s*["']${fontName}["'][^>]*>`, 'gi')\<close>. The name is
      spliced into the source of the expression; it is read here as a literal, which is
      what it means when the name has none of the characters \<open>\ ^ $ . | ? * + ( ) [ ] { }\<close>.\<close>
  "entryPattern fontName =
     [Lit ''<type'', Cls not_gt Star, Lit ''family'', Cls is_space Star, Lit ''='',
      Cls is_space Star, Cls is_quote One, Lit fontName, Cls is_quote One,
      Cls not_gt Star, Lit ''>'']"

definition entry_of_match :: "string \<Rightarrow> rmatch \<Rightarrow> string list" where
  \<comment> \<open>the body of the \<open>exec\<close> loop: the text from the match to the next \<open>/>\<close>. When there is
      no \<open>/>\<close>, \<open>indexOf\<close> gives -1 and \<open>endPos\<close> is 1.\<close>
  "entry_of_match xmlContent m =
     (let startPos = index m;
          endPos = (case indexOf_from xmlContent ''/>'' startPos of None \<Rightarrow> 1 | Some j \<Rightarrow> j + 2)
      in if startPos < endPos then [take (endPos - startPos) (drop startPos xmlContent)] else [])"

definition entriesToRemove :: "string \<Rightarrow> string \<Rightarrow> string list" where
  "entriesToRemove fontName xmlContent =
     concat (map (entry_of_match xmlContent) (rx_all True (entryPattern fontName) xmlContent))"

text \<open>The properties read off a file name, by substring tests on its lower-cased form.\<close>

definition isItalic :: "string \<Rightarrow> bool" where
  "isItalic fontFile = (str_includes (toLowerCase fontFile) ''-italic''
                        \<or> str_includes (toLowerCase fontFile) ''-bolditalic'')"

definition isBold :: "string \<Rightarrow> bool" where
  "isBold fontFile = (str_includes (toLowerCase fontFile) ''-bold''
                      \<or> str_includes (toLowerCase fontFile) ''-bolditalic'')"

definition isSemiBold :: "string \<Rightarrow> bool" where
  "isSemiBold fontFile = str_includes (toLowerCase fontFile) ''-semibold''"

definition isLight :: "string \<Rightarrow> bool" where
  "isLight fontFile = str_includes (toLowerCase fontFile) ''-light''"

definition isMedium :: "string \<Rightarrow> bool" where
  "isMedium fontFile = str_includes (toLowerCase fontFile) ''-medium''"

definition isRegular :: "string \<Rightarrow> bool" where
  "isRegular fontFile = str_includes (toLowerCase fontFile) ''-regular''"

definition isExtraBold :: "string \<Rightarrow> bool" where
  "isExtraBold fontFile = str_includes (toLowerCase fontFile) ''-extrabold''"

definition weight_of :: "string \<Rightarrow> string" where
  "weight_of fontFile =
     (let weight = ''400'';
          weight = (if isBold fontFile then ''700'' else weight);
          weight = (if isSemiBold fontFile then ''600'' else weight);
          weight = (if isMedium fontFile then ''500'' else weight);
          weight = (if isLight fontFile then ''300'' else weight);
          weight = (if isExtraBold fontFile then ''800'' else weight)
      in weight)"

definition style_of :: "string \<Rightarrow> string" where
  "style_of fontFile = (if isItalic fontFile then ''Italic'' else ''Normal'')"

definition fullname_of :: "string \<Rightarrow> string \<Rightarrow> string" where
  "fullname_of fontName fontFile =
     fontName @
     (if isBold fontFile \<and> isItalic fontFile then '' Bold Italic''
      else if isBold fontFile then '' Bold''
      else if isSemiBold fontFile \<and> isItalic fontFile then '' SemiBold Italic''
      else if isSemiBold fontFile then '' SemiBold''
      else if isMedium fontFile \<and> isItalic fontFile then '' Medium Italic''
      else if isMedium fontFile then '' Medium''
      else if isLight fontFile \<and> isItalic fontFile then '' Light Italic''
      else if isLight fontFile then '' Light''
      else if isItalic fontFile then '' Italic''
      else if isRegular fontFile then '' Regular''
      else if isExtraBold fontFile \<and> isItalic fontFile then '' ExtraBold Italic''
      else if isExtraBold fontFile then '' ExtraBold''
      else '' Regular'')"

definition typeName_suffix :: "string \<Rightarrow> string" where
  "typeName_suffix fontFile =
     (if isBold fontFile \<and> isItalic fontFile then '' Bold Italic''
      else if isBold fontFile then '' Bold''
      else if isSemiBold fontFile \<and> isItalic fontFile then '' SemiBold Italic''
      else if isSemiBold fontFile then '' SemiBold''
      else if isMedium fontFile \<and> isItalic fontFile then '' Medium Italic''
      else if isMedium fontFile then '' Medium''
      else if isLight fontFile \<and> isItalic fontFile then '' Light Italic''
      else if isLight fontFile then '' Light''
      else if isItalic fontFile then '' Italic''
      else if \<not> isRegular fontFile \<and> \<not> str_includes fontFile ''-'' then '' Regular''
      else [])"

definition typeName_of :: "string \<Rightarrow> string \<Rightarrow> string" where
  "typeName_of fontName fontFile = fontName @ typeName_suffix fontFile"

record type_row =
  row_name :: string
  row_fullname :: string
  row_family :: string
  row_style :: string
  row_weight :: string
  row_glyphs :: string

definition slashes :: "string \<Rightarrow> string" where
  \<comment> \<open>\<open>p.replace(/\\/g, '/')\<close>\<close>
  "slashes p = map (\<lambda>c. if c = CHR 0x5C then CHR ''/'' else c) p"

definition file_row :: "world \<Rightarrow> string \<Rightarrow> string \<Rightarrow> type_row" where
  \<comment> \<open>the row of one font file\<close>
  "file_row w fontName fontFile =
     \<lparr>row_name = typeName_of fontName fontFile,
      row_fullname = fullname_of fontName fontFile,
      row_family = fontName,
      row_style = style_of fontFile,
      row_weight = weight_of fontFile,
      row_glyphs = slashes (abspath w fontFile)\<rparr>"

definition defaultFontFile :: "string list \<Rightarrow> string" where
  \<comment> \<open>\<open>fontFiles.find(file => file.toLowerCase().includes('-regular')) || fontFiles[0]\<close>,
      on a list that is not empty\<close>
  "defaultFontFile fontFiles =
     (case find (\<lambda>file. str_includes (toLowerCase file) ''-regular'') fontFiles of
        Some f \<Rightarrow> f
      | None \<Rightarrow> (case fontFiles of f # _ \<Rightarrow> f | [] \<Rightarrow> []))"

definition default_row :: "world \<Rightarrow> string \<Rightarrow> string list \<Rightarrow> type_row" where
  \<comment> \<open>the additional row under the bare family name\<close>
  "default_row w fontName fontFiles =
     \<lparr>row_name = fontName,
      row_fullname = fontName @ '' Regular'',
      row_family = fontName,
      row_style = ''Normal'',
      row_weight = ''400'',
      row_glyphs = slashes (abspath w (defaultFontFile fontFiles))\<rparr>"

definition entry_text :: "type_row \<Rightarrow> string" where
  \<comment> \<open>the template of a row, a line of the mapping file\<close>
  "entry_text r =
     ''  <type name=\"'' @ row_name r @ ''\" fullname=\"'' @ row_fullname r
     @ ''\" family=\"'' @ row_family r @ ''\" style=\"'' @ row_style r
     @ ''\" stretch=\"Normal\" weight=\"'' @ row_weight r
     @ ''\" glyphs=\"'' @ row_glyphs r @ ''\" />'' @ nl"

definition new_rows :: "world \<Rightarrow> string \<Rightarrow> string list \<Rightarrow> type_row list" where
  \<comment> \<open>the rows one call writes: one for each font file, then the default row\<close>
  "new_rows w fontName fontFiles =
     map (file_row w fontName) fontFiles @ [default_row w fontName fontFiles]"

definition empty_typemap :: string where
  "empty_typemap = ''<?xml version=\"1.0\"?>'' @ nl @ ''<typemap>'' @ nl @ ''</typemap>''"

definition updateTypeXmlFile :: "string \<Rightarrow> world \<Rightarrow> world" where
  \<comment> \<open>every exit that writes nothing (an exception caught at the end, an early \<open>return\<close>)
      leaves the world as it is\<close>
  "updateTypeXmlFile fontName w =
     (let xmlContent = (case readFile w ''type.xml'' of None \<Rightarrow> empty_typemap | Some c \<Rightarrow> c)
      in case readdirSync w of
           None \<Rightarrow> w
         | Some files \<Rightarrow>
             (let fontFiles = filter (isFontFile fontName) files
              in if fontFiles = [] then w
                 else
                   (case lastIndexOf xmlContent ''</typemap>'' of
                      None \<Rightarrow> w
                    | Some closingTagPos \<Rightarrow>
                        (let xmlContent = foldl (\<lambda>x entry. replace_str x entry [])
                                            xmlContent (entriesToRemove fontName xmlContent);
                             newEntries = concat (map entry_text (new_rows w fontName fontFiles));
                             updatedXmlContent = trim (take closingTagPos xmlContent);
                             updatedXmlContent =
                               (if endsWith updatedXmlContent nl then updatedXmlContent
                                else updatedXmlContent @ nl);
                             updatedXmlContent = updatedXmlContent @ newEntries;
                             updatedXmlContent = updatedXmlContent @ drop closingTagPos xmlContent
                         in writeFile ''type.xml'' updatedXmlContent w))))"

section \<open>The remote resolver (\<open>downloadGoogleFont\<close>, font-manager.js)\<close>

definition systemFonts :: "string list" where
  "systemFonts =
     [''Arial'', ''Helvetica'', ''Times'', ''Times New Roman'', ''Courier'', ''Courier New'',
      ''Verdana'', ''Georgia'', ''Palatino'', ''Garamond'', ''Bookman'', ''Tahoma'',
      ''Trebuchet MS'']"

definition apiUrl :: "string \<Rightarrow> string" where
  "apiUrl key = ''https://www.googleapis.com/webfonts/v1/webfonts?key='' @ key"

definition ttfUrl_of :: "string \<Rightarrow> string" where
  \<comment> \<open>\<open>fontUrl.replace(/\.woff2$|\.woff$/, '.ttf')\<close>\<close>
  "ttfUrl_of fontUrl =
     (if endsWith fontUrl ''.woff2'' then take (length fontUrl - 6) fontUrl @ ''.ttf''
      else if endsWith fontUrl ''.woff'' then take (length fontUrl - 5) fontUrl @ ''.ttf''
      else fontUrl)"

definition request :: "request \<Rightarrow> world \<Rightarrow> world" where
  "request r w = w\<lparr>requests := requests w @ [r]\<rparr>"

definition mkdir :: "world \<Rightarrow> world" where
  \<comment> \<open>\<open>if (!fs.existsSync(fontsDir)) fs.mkdirSync(fontsDir, { recursive: true })\<close>\<close>
  "mkdir w = (case fontsDir w of None \<Rightarrow> w\<lparr>fontsDir := Some []\<rparr> | Some fs \<Rightarrow> w)"

definition downloadGoogleFont_try :: "string \<Rightarrow> world \<Rightarrow> (string + bool) \<times> world" where
  \<comment> \<open>the body of the outer \<open>try\<close>: \<open>Inl\<close> is an error thrown, with its message, \<open>Inr\<close> a value
      returned. The inner \<open>try\<close> around the download returns \<open>false\<close> on its own.\<close>
  "downloadGoogleFont_try fontName w =
     (if fontName \<in> set systemFonts then (Inr False, w)
      else
        (case apiKey w of
           None \<Rightarrow> (Inl ''Google Fonts API key not configured - set GOOGLE_FONTS_API_KEY environment variable'', w)
         | Some key \<Rightarrow>
             if key = [] then (Inl ''Google Fonts API key not configured - set GOOGLE_FONTS_API_KEY environment variable'', w)
             else
               (let w = request (Get (apiUrl key)) w
                in case catalog w of
                     None \<Rightarrow> (Inl ''Invalid response from Google Fonts API'', w)
                   | Some items \<Rightarrow>
                       (case find (\<lambda>item. toLowerCase (item_family item) = toLowerCase fontName) items of
                          None \<Rightarrow> (Inl (''Font \"'' @ fontName @ ''\" not found in Google Fonts catalog - check spelling or try a different font''), w)
                        | Some fontInfo \<Rightarrow>
                            (case item_regular fontInfo of
                               None \<Rightarrow> (Inl (''No files information available for '' @ fontName), w)
                             | Some fontUrl \<Rightarrow>
                                 if fontUrl = [] then (Inl (''No files information available for '' @ fontName), w)
                                 else
                                   (let ttfUrl = ttfUrl_of fontUrl;
                                        w = request (Head ttfUrl) w
                                    in if \<not> probe w ttfUrl
                                       then (Inl (''TTF format not available for \"'' @ fontName @ ''\" - Google Fonts may only provide WOFF/WOFF2 for this font''), w)
                                       else
                                         (let w = mkdir w;
                                              fileName = strip_spaces fontName @ ''-Regular.ttf'';
                                              w = request (Get ttfUrl) w
                                          in case fetch w ttfUrl of
                                               None \<Rightarrow> (Inr False, w)
                                             | Some body \<Rightarrow>
                                                 (Inr True,
                                                  updateTypeXmlFile fontName (writeFile fileName body w)))))))))"

definition downloadGoogleFont :: "string \<Rightarrow> world \<Rightarrow> bool \<times> world" where
  \<comment> \<open>the outer \<open>catch\<close> logs the message of whatever was thrown and returns \<open>false\<close>\<close>
  "downloadGoogleFont fontName w =
     (case downloadGoogleFont_try fontName w of
        (Inl message, w') \<Rightarrow> (False, w')
      | (Inr success, w') \<Rightarrow> (success, w'))"

section \<open>The resolution run (\<open>ensureFontsAvailable\<close>, font-manager.js)\<close>

record results =
  fontsDetected :: "string list"
  fontsFoundLocally :: "string list"
  fontsDownloaded :: "string list"
  fontsFailed :: "string list"
  errors :: "string list"

fun resolve_fonts :: "string list \<Rightarrow> results \<Rightarrow> world \<Rightarrow> results \<times> world" where
  \<comment> \<open>the loop over the detected names. \<open>downloadGoogleFont\<close> catches every error itself,
      so the \<open>catch\<close> of the loop, the one place that adds to \<open>errors\<close>, is never entered.\<close>
  "resolve_fonts [] res w = (res, w)"
| "resolve_fonts (fontName # rest) res w =
     (if fontExistsLocally fontName (readdirSync w)
      then resolve_fonts rest (res\<lparr>fontsFoundLocally := fontsFoundLocally res @ [fontName]\<rparr>) w
      else
        (case downloadGoogleFont fontName w of
           (True, w') \<Rightarrow>
             resolve_fonts rest (res\<lparr>fontsDownloaded := fontsDownloaded res @ [fontName]\<rparr>) w'
         | (False, w') \<Rightarrow>
             resolve_fonts rest (res\<lparr>fontsFailed := fontsFailed res @ [fontName]\<rparr>) w'))"

definition ensureFontsAvailable :: "string + string \<Rightarrow> world \<Rightarrow> results \<times> world" where
  \<comment> \<open>the first argument is what reading the document gives: \<open>Inl\<close> the message of the
      error thrown, \<open>Inr\<close> its text\<close>
  "ensureFontsAvailable svg w =
     (let results = \<lparr>fontsDetected = [], fontsFoundLocally = [], fontsDownloaded = [],
                     fontsFailed = [], errors = []\<rparr>
      in case svg of
           Inl message \<Rightarrow>
             (results\<lparr>errors := [''Error ensuring fonts available: '' @ message]\<rparr>, w)
         | Inr svgContent \<Rightarrow>
             (let fontFamilies = extractFontsFromSVG svgContent;
                  results = results\<lparr>fontsDetected := fontFamilies\<rparr>
              in if fontFamilies = [] then (results, w)
                 else resolve_fonts fontFamilies results w))"

section \<open>JavaScript numbers\<close>

text \<open>
  A number is a real, an infinity or \<open>NaN\<close>. The arithmetic is the exact one: the
  rounding of a result to the nearest double and the sign of zero are not modelled.
  \<open>parseFloat\<close> reads the longest prefix that is a decimal literal, after leading white
  space, and gives \<open>NaN\<close> when there is none.
\<close>

datatype jsnum = Num real | PInf | NInf | NaN

definition isNaN :: "jsnum \<Rightarrow> bool" where
  "isNaN n = (n = NaN)"

fun js_gt0 :: "jsnum \<Rightarrow> bool" where
  \<comment> \<open>\<open>n > 0\<close>\<close>
  "js_gt0 (Num x) = (0 < x)"
| "js_gt0 PInf = True"
| "js_gt0 NInf = False"
| "js_gt0 NaN = False"

fun js_max :: "jsnum \<Rightarrow> jsnum \<Rightarrow> jsnum" where
  \<comment> \<open>\<open>Math.max(a, b)\<close>\<close>
  "js_max NaN b = NaN"
| "js_max a NaN = NaN"
| "js_max PInf b = PInf"
| "js_max a PInf = PInf"
| "js_max NInf b = b"
| "js_max a NInf = a"
| "js_max (Num x) (Num y) = Num (max x y)"

fun js_neg :: "jsnum \<Rightarrow> jsnum" where
  "js_neg (Num x) = Num (- x)"
| "js_neg PInf = NInf"
| "js_neg NInf = PInf"
| "js_neg NaN = NaN"

fun js_sub :: "jsnum \<Rightarrow> jsnum \<Rightarrow> jsnum" where
  \<comment> \<open>\<open>a - b\<close>\<close>
  "js_sub NaN b = NaN"
| "js_sub a NaN = NaN"
| "js_sub (Num x) (Num y) = Num (x - y)"
| "js_sub (Num x) b = js_neg b"
| "js_sub PInf PInf = NaN"
| "js_sub NInf NInf = NaN"
| "js_sub a b = a"

fun js_mul :: "jsnum \<Rightarrow> jsnum \<Rightarrow> jsnum" where
  \<comment> \<open>\<open>a * b\<close>\<close>
  "js_mul NaN b = NaN"
| "js_mul a NaN = NaN"
| "js_mul (Num x) (Num y) = Num (x * y)"
| "js_mul (Num x) b = (if x = 0 then NaN else if 0 < x then b else js_neg b)"
| "js_mul a (Num y) = (if y = 0 then NaN else if 0 < y then a else js_neg a)"
| "js_mul PInf b = b"
| "js_mul NInf b = js_neg b"

fun js_div :: "jsnum \<Rightarrow> jsnum \<Rightarrow> jsnum" where
  \<comment> \<open>\<open>a / b\<close>\<close>
  "js_div NaN b = NaN"
| "js_div a NaN = NaN"
| "js_div (Num x) (Num y) =
     (if y \<noteq> 0 then Num (x / y) else if x = 0 then NaN else if 0 < x then PInf else NInf)"
| "js_div (Num x) b = Num 0"
| "js_div a (Num y) = (if 0 \<le> y then a else js_neg a)"
| "js_div a b = NaN"

definition digits_val :: "string \<Rightarrow> nat" where
  "digits_val ds = foldl (\<lambda>a c. 10 * a + digit_val c) 0 ds"

definition exponent_of :: "string \<Rightarrow> int" where
  \<comment> \<open>the exponent part \<open>e\<close>, \<open>e+\<close> or \<open>e-\<close> with digits, when the text opens with one\<close>
  "exponent_of t =
     (case t of
        [] \<Rightarrow> 0
      | c # t1 \<Rightarrow>
          if c = CHR ''e'' \<or> c = CHR ''E'' then
            (case t1 of
               [] \<Rightarrow> 0
             | d # t2 \<Rightarrow>
                 if d = CHR ''-'' then
                   (if takeWhile is_digit t2 = [] then 0 else - int (digits_val (takeWhile is_digit t2)))
                 else if d = CHR ''+'' then int (digits_val (takeWhile is_digit t2))
                 else int (digits_val (takeWhile is_digit t1)))
          else 0)"

definition scale10 :: "real \<Rightarrow> int \<Rightarrow> real" where
  "scale10 x e = (if 0 \<le> e then x * 10 ^ nat e else x / 10 ^ nat (- e))"

definition parseFloat :: "string \<Rightarrow> jsnum" where
  "parseFloat s =
     (let t = dropWhile is_space s;
          neg = startsWith t ''-'';
          t = (if startsWith t ''-'' \<or> startsWith t ''+'' then drop 1 t else t)
      in if startsWith t ''Infinity'' then (if neg then NInf else PInf)
         else
           (let ip = takeWhile is_digit t;
                t1 = dropWhile is_digit t;
                dot = startsWith t1 ''.'';
                fp = (if dot then takeWhile is_digit (drop 1 t1) else []);
                t2 = (if dot then dropWhile is_digit (drop 1 t1) else t1)
            in if ip = [] \<and> fp = [] then NaN
               else
                 (let v = scale10 (real (digits_val (ip @ fp)) / 10 ^ length fp) (exponent_of t2)
                  in Num (if neg then - v else v))))"

section \<open>Frame inference and text tagging (\<open>preprocessSvg\<close>, server.js)\<close>

definition viewBoxRegex :: regex where
  \<comment> \<open>\<open>/<svg[^>]*viewBox\s*=\s*["'][^"']*["']/i\<close>\<close>
  "viewBoxRegex =
     [Lit ''<svg'', Cls not_gt Star, Lit ''viewBox'', Cls is_space Star, Lit ''='',
      Cls is_space Star, Cls is_quote One, Cls not_quote Star, Cls is_quote One]"

definition svgTagRegex :: regex where
  \<comment> \<open>\<open>/<svg[^>]*>/i\<close>\<close>
  "svgTagRegex = [Lit ''<svg'', Cls not_gt Star, Lit ''>'']"

definition svgAttrRegex :: "string \<Rightarrow> regex" where
  \<comment> \<open>\<open>/<svg[^>]*width\s*=\s*["']([^"']*)["']/i\<close>, and the same for \<open>height\<close>\<close>
  "svgAttrRegex attr =
     [Lit ''<svg'', Cls not_gt Star, Lit attr, Cls is_space Star, Lit ''='',
      Cls is_space Star, Cls is_quote One, Cap not_quote Star, Cls is_quote One]"

definition gtEndRegex :: regex where
  \<comment> \<open>\<open>/>$/\<close>\<close>
  "gtEndRegex = [Lit ''>'', End]"

definition hasViewBox :: "string \<Rightarrow> bool" where
  "hasViewBox svgContent = rx_test True viewBoxRegex svgContent"

definition declared :: "string \<Rightarrow> string \<Rightarrow> jsnum option" where
  \<comment> \<open>\<open>parseFloat\<close> of the trimmed value of the attribute in the root tag, when the pattern finds one\<close>
  "declared attr svgContent =
     map_option (\<lambda>m. parseFloat (trim (group1 m))) (rx_first True (svgAttrRegex attr) svgContent)"

definition infer_frame :: "(jsnum \<Rightarrow> string) \<Rightarrow> string \<Rightarrow> string" where
  \<comment> \<open>the first part of \<open>preprocessSvg\<close>, up to the first write of the document. \<open>num\<close> is
      the conversion of a number to a string that the template literal applies.\<close>
  "infer_frame num svgContent =
     (case rx_first True svgTagRegex svgContent of
        None \<Rightarrow> svgContent
      | Some svgTagMatch \<Rightarrow>
          if hasViewBox svgContent then svgContent
          else
            (case (declared ''width'' svgContent, declared ''height'' svgContent) of
               (Some width, Some height) \<Rightarrow>
                 if \<not> isNaN width \<and> \<not> isNaN height \<and> js_gt0 width \<and> js_gt0 height
                 then
                   (let viewBox = ''0 0 '' @ num width @ '' '' @ num height;
                        newSvgTag = replace_rx False gtEndRegex (whole svgTagMatch)
                                      ('' viewBox=\"'' @ viewBox @ ''\">'')
                    in replace_str svgContent (whole svgTagMatch) newSvgTag)
                 else svgContent
             | _ \<Rightarrow> svgContent))"

definition plainTextRegex :: regex where
  \<comment> \<open>\<open>/<text[^>]*>[^<]*<\/text>/gi\<close>\<close>
  "plainTextRegex =
     [Lit ''<text'', Cls not_gt Star, Lit ''>'', Cls (\<lambda>c. c \<noteq> CHR ''<'') Star, Lit ''</text>'']"

definition enhance_one :: "string \<Rightarrow> string \<Rightarrow> string" where
  "enhance_one svgContent textElement =
     (if \<not> str_includes textElement ''font-weight'' \<and> \<not> str_includes textElement ''font-style''
      then replace_str svgContent textElement
             (replace_rx False [Lit ''<text''] textElement
                ''<text font-weight=\"normal\" font-style=\"normal\"'')
      else svgContent)"

definition enhance_text :: "string \<Rightarrow> string" where
  \<comment> \<open>the second part of \<open>preprocessSvg\<close>\<close>
  "enhance_text svgContent =
     (let textElements = map whole (rx_all True plainTextRegex svgContent)
      in if textElements = [] then svgContent
         else
           (let svgContent =
                  (case rx_first True svgTagRegex svgContent of
                     None \<Rightarrow> svgContent
                   | Some svgTagMatch \<Rightarrow>
                       if str_includes svgContent ''text-rendering'' then svgContent
                       else replace_str svgContent (whole svgTagMatch)
                              (replace_rx False gtEndRegex (whole svgTagMatch)
                                 '' text-rendering=\"geometricPrecision\" shape-rendering=\"geometricPrecision\">''))
            in foldl enhance_one svgContent textElements))"

definition preprocessSvg :: "(jsnum \<Rightarrow> string) \<Rightarrow> string \<Rightarrow> string" where
  "preprocessSvg num svgContent = enhance_text (infer_frame num svgContent)"

section \<open>Canvas normalization (\<open>modifySvgDimensions\<close>, server.js)\<close>

definition dimRegex :: "string \<Rightarrow> regex" where
  \<comment> \<open>\<open>/width="([^"]+)"/i\<close>, and the same for \<open>height\<close>\<close>
  "dimRegex attr = [Lit (attr @ ''=\"''), Cap (\<lambda>c. c \<noteq> CHR 0x22) Plus, Lit ''\"'']"

definition default_dim :: jsnum where
  "default_dim = Num (1511712 / 10000)"

definition originalDimensions :: "string \<Rightarrow> jsnum \<times> jsnum" where
  \<comment> \<open>\<open>originalWidth\<close> and \<open>originalHeight\<close>\<close>
  "originalDimensions svgContent =
     (case (rx_first True (dimRegex ''width'') svgContent,
            rx_first True (dimRegex ''height'') svgContent) of
        (Some widthMatch, Some heightMatch) \<Rightarrow>
          (parseFloat (group1 widthMatch), parseFloat (group1 heightMatch))
      | _ \<Rightarrow> (default_dim, default_dim))"

record scaling =
  scaleFactor :: jsnum
  centerX :: jsnum
  centerY :: jsnum

definition scalingTransform :: "jsnum \<Rightarrow> jsnum \<times> jsnum \<Rightarrow> scaling" where
  "scalingTransform targetSize dims =
     (let originalWidth = fst dims;
          originalHeight = snd dims;
          scaleFactor = js_div targetSize (js_max originalWidth originalHeight);
          scaledWidth = js_mul originalWidth scaleFactor;
          scaledHeight = js_mul originalHeight scaleFactor
      in \<lparr>scaleFactor = scaleFactor,
          centerX = js_div (js_sub targetSize scaledWidth) (Num 2),
          centerY = js_div (js_sub targetSize scaledHeight) (Num 2)\<rparr>)"

definition modifySvgDimensions :: "(jsnum \<Rightarrow> string) \<Rightarrow> jsnum \<Rightarrow> string \<Rightarrow> string" where
  "modifySvgDimensions num targetSize svgContent =
     (let t = scalingTransform targetSize (originalDimensions svgContent)
      in case rx_first True svgTagRegex svgContent of
           None \<Rightarrow> svgContent
         | Some svgTagMatch \<Rightarrow>
             (let newSvgTag =
                    ''<svg width=\"'' @ num targetSize @ ''pt\" height=\"'' @ num targetSize
                    @ ''pt\" viewBox=\"0 0 '' @ num targetSize @ '' '' @ num targetSize
                    @ ''\" xmlns=\"http://www.w3.org/2000/svg\" xmlns:xlink=\"http://www.w3.org/1999/xlink\" xmlns:dc=\"http://purl.org/dc/elements/1.1/\" xmlns:cc=\"http://creativecommons.org/ns#\" xmlns:se=\"http://www.pixopa.com\">'';
                  contentAfterSvgTag = after_match svgContent svgTagMatch;
                  scaledContent =
                    ''<g transform=\"translate('' @ num (centerX t) @ '', '' @ num (centerY t)
                    @ '') scale('' @ num (scaleFactor t) @ '')\">''
                    @ replace_str contentAfterSvgTag ''</svg>'' []
                    @ ''</g></svg>''
              in newSvgTag @ scaledContent))"

section \<open>Font-face injection (\<open>preprocessSvgForBetterFonts\<close>, server.js)\<close>


definition not_dquote :: "char \<Rightarrow> bool" where
  \<comment> \<open>the class \<open>[^"]\<close>\<close>
  "not_dquote c = (c \<noteq> CHR 0x22)"


definition fontEntryRegex :: regex where
  \<comment> \<open>\<open>/<type\s+name="([^"]+)"\s+[^>]*?family="([^"]+)"[^>]*?glyphs="([^"]+)"/gi\<close>\<close>
  "fontEntryRegex =
     [Lit ''<type'', Cls is_space Plus, Lit ''name=\"'', Cap not_dquote Plus, Lit ''\"'',
      Cls is_space Plus, Cls not_gt LazyStar, Lit ''family=\"'', Cap not_dquote Plus, Lit ''\"'',
      Cls not_gt LazyStar, Lit ''glyphs=\"'', Cap not_dquote Plus, Lit ''\"'']"

record font_mapping =
  map_name :: string
  map_family :: string
  map_path :: string

definition group :: "nat \<Rightarrow> rmatch \<Rightarrow> string" where
  \<comment> \<open>\<open>match[k]\<close> for \<open>k \<ge> 1\<close>\<close>
  "group k m = (if 1 \<le> k \<and> k \<le> length (groups m) then groups m ! (k - 1) else [])"

definition fontMappings :: "world \<Rightarrow> font_mapping list" where
  \<comment> \<open>the rows read back from the mapping file, none when it does not exist\<close>
  "fontMappings w =
     (case readFile w ''type.xml'' of
        None \<Rightarrow> []
      | Some typeXmlContent \<Rightarrow>
          map (\<lambda>m. \<lparr>map_name = group 1 m, map_family = group 2 m, map_path = group 3 m\<rparr>)
            (rx_all True fontEntryRegex typeXmlContent))"



















section \<open>Notions used in the statements\<close>

definition offline_world :: "(string \<times> string) list option \<Rightarrow> world" where
  \<comment> \<open>a machine with the given fonts directory, no API key and a network that answers nothing\<close>
  "offline_world dir =
     \<lparr>apiKey = None, fontsDir = dir, abspath = (\<lambda>f. ''/fonts/'' @ f), catalog = None,
      probe = (\<lambda>u. False), fetch = (\<lambda>u. None), requests = []\<rparr>"



text \<open>
  A fonts directory with one file of each of two families, and the lines that the map
  writer produces for them.
\<close>

definition two_fonts :: "(string \<times> string) list" where
  "two_fonts = [(''Lato-Regular.ttf'', []), (''Lora-Regular.ttf'', [])]"

definition typemap_open :: string where
  "typemap_open = ''<?xml version=\"1.0\"?>'' @ nl @ ''<typemap>'' @ nl"

definition lato_head :: string where
  "lato_head = ''  <type name=\"Lato\" fullname=\"Lato Regular\" family=\"Lato\" style=\"Normal\" stretch=\"Normal\" weight=\"400\" glyphs=\"/fonts/Lato''"

definition lato_tail :: string where
  "lato_tail = ''-Regular.ttf\" />'' @ nl"

definition lato_row :: string where
  "lato_row = lato_head @ lato_tail"

definition lora_row :: string where
  "lora_row = ''  <type name=\"Lora\" fullname=\"Lora Regular\" family=\"Lora\" style=\"Normal\" stretch=\"Normal\" weight=\"400\" glyphs=\"/fonts/Lora-Regular.ttf\" />'' @ nl"

definition blank :: string where
  \<comment> \<open>what the removal of a row leaves of its line\<close>
  "blank = ''  '' @ nl"

section \<open>Properties\<close>

subsection \<open>Lemmas on strings and on the expressions\<close>



text \<open>
  A match never extends the input, and a match of an expression that opens with a
  literal that is not empty takes at least one character. The expressions that the
  source runs in an \<open>exec\<close> loop all open with such a literal, so these loops end.
\<close>

lemma lit_match_length: "lit_match l s = Some t \<Longrightarrow> length s = length l + length t"
  by (induction l s rule: lit_match.induct) (auto split: if_splits)

lemma liti_match_length: "liti_match lo up s = Some t \<Longrightarrow> length s = length lo + length t"
  by (induction lo up s rule: liti_match.induct) (auto split: if_splits)

lemma rep_result:
  "rep q P k s = Some x \<Longrightarrow> \<exists>t. k t = Some x \<and> length t \<le> length s"
proof (induction q P k s rule: rep.induct)
  case (2 P k c s)
  then show ?case by (auto split: if_splits intro: le_SucI)
next
  case (4 P k c s)
  then show ?case by (auto split: if_splits option.splits intro: le_SucI)
next
  case (6 P k c s)
  then show ?case by (fastforce split: if_splits option.splits intro: le_SucI)
next
  case (8 P k c s)
  then show ?case by (fastforce split: if_splits intro: le_SucI)
next
  case (10 P k c s)
  then show ?case by (fastforce split: if_splits option.splits intro: le_SucI)
qed auto

lemma rx_match_length:
  "rx_match r s = Some (caps, rest) \<Longrightarrow> length rest \<le> length s"
proof (induction r s arbitrary: caps rest rule: rx_match.induct)
  case (1 s)
  then show ?case by simp
next
  case (2 l r s)
  then show ?case by (fastforce split: option.splits dest: lit_match_length)
next
  case (3 lo up r s)
  then show ?case by (fastforce split: option.splits dest: liti_match_length)
next
  case (4 P q r s)
  then obtain t where "rx_match r t = Some (caps, rest)" "length t \<le> length s"
    using rep_result [of q P "\<lambda>rest. rx_match r rest" s "(caps, rest)"] by auto
  then show ?case using "4.IH" [of t caps rest] by simp
next
  case (5 P q r s)
  define k where "k = (\<lambda>t. case rx_match r t of
                          None \<Rightarrow> None
                        | Some (caps, rest') \<Rightarrow> Some (take (length s - length t) s # caps, rest'))"
  have "rep q P k s = Some (caps, rest)"
    using "5.prems" by (simp add: k_def)
  from rep_result [OF this] obtain t where t: "k t = Some (caps, rest)" "length t \<le> length s"
    by blast
  then obtain caps' where "rx_match r t = Some (caps', rest)"
    by (auto simp: k_def split: option.splits)
  then show ?case using "5.IH" [of t caps' rest] t(2) by simp
next
  case (6 r s)
  then show ?case by (auto split: if_splits)
qed

lemma rx_match_progress:
  assumes "rx_match r s = Some (caps, rest)"
      and "(\<exists>a l r'. r = Lit (a # l) # r') \<or> (\<exists>a lo up r'. r = LitI (a # lo) up # r')"
  shows "length rest < length s"
proof -
  from assms(2) consider a l r' where "r = Lit (a # l) # r'" | a lo up r' where "r = LitI (a # lo) up # r'"
    by blast
  then show ?thesis
  proof cases
    case 1
    then obtain t where "lit_match (a # l) s = Some t" "rx_match r' t = Some (caps, rest)"
      using assms(1) by (auto split: option.splits)
    then show ?thesis using lit_match_length rx_match_length by fastforce
  next
    case 2
    then obtain t where "liti_match (a # lo) up s = Some t" "rx_match r' t = Some (caps, rest)"
      using assms(1) by (auto split: option.splits)
    then show ?thesis using liti_match_length rx_match_length by fastforce
  qed
qed














subsection \<open>Lemmas on the font manager\<close>





lemma resolve_fonts_errors: "errors (fst (resolve_fonts names res w)) = errors res"
  by (induction names res w rule: resolve_fonts.induct) (auto split: prod.splits bool.splits)

lemma updateTypeXmlFile_frame:
  "updateTypeXmlFile f w = w\<lparr>fontsDir := fontsDir (updateTypeXmlFile f w)\<rparr>"
  by (auto simp: updateTypeXmlFile_def Let_def writeFile_def split: option.splits)

lemma register_offline:
  "updateTypeXmlFile f (offline_world d)
     = offline_world (fontsDir (updateTypeXmlFile f (offline_world d)))"
  using updateTypeXmlFile_frame [of f "offline_world d"] by (simp add: offline_world_def)

text \<open>The mapping file through five calls of the map writer, one call at a time.\<close>

lemma register_lato_1:
  "fontsDir (updateTypeXmlFile ''Lato'' (offline_world (Some two_fonts)))
   = Some (two_fonts @ [(''type.xml'', typemap_open @ lato_row @ lato_row @ ''</typemap>'')])"
  by code_simp

lemma register_lato_again:
  "fontsDir (updateTypeXmlFile ''Lato'' (offline_world (Some (two_fonts @
      [(''type.xml'', typemap_open @ lato_row @ lato_row @ ''</typemap>'')]))))
   = Some (two_fonts @
      [(''type.xml'', typemap_open @ blank @ blank @ ''</typemap>'' @ nl @ lato_row @ lato_row)])"
  by code_simp

lemma register_lora_2:
  "fontsDir (updateTypeXmlFile ''Lora'' (offline_world (Some (two_fonts @
      [(''type.xml'', typemap_open @ lato_row @ lato_row @ ''</typemap>'')]))))
   = Some (two_fonts @
      [(''type.xml'', typemap_open @ lato_row @ lato_row @ lora_row @ lora_row @ ''</typemap>'')])"
  by code_simp

lemma register_lato_3:
  "fontsDir (updateTypeXmlFile ''Lato'' (offline_world (Some (two_fonts @
      [(''type.xml'', typemap_open @ lato_row @ lato_row @ lora_row @ lora_row @ ''</typemap>'')]))))
   = Some (two_fonts @
      [(''type.xml'', typemap_open @ blank @ blank @ lora_row @ lora_row @ ''</typemap>'' @ nl
                      @ lato_row @ lato_row)])"
  by code_simp

lemma register_lora_4:
  "fontsDir (updateTypeXmlFile ''Lora'' (offline_world (Some (two_fonts @
      [(''type.xml'', typemap_open @ blank @ blank @ lora_row @ lora_row @ ''</typemap>'' @ nl
                      @ lato_row @ lato_row)]))))
   = Some (two_fonts @
      [(''type.xml'', typemap_open @ blank @ blank @ blank @ blank @ ''</typemap>'' @ nl
                      @ lato_row @ lato_head @ nl @ lora_row @ lora_row @ lato_tail)])"
  by code_simp

lemma register_lora_5:
  "fontsDir (updateTypeXmlFile ''Lora'' (offline_world (Some (two_fonts @
      [(''type.xml'', typemap_open @ blank @ blank @ blank @ blank @ ''</typemap>'' @ nl
                      @ lato_row @ lato_head @ nl @ lora_row @ lora_row @ lato_tail)]))))
   = Some (two_fonts @
      [(''type.xml'', typemap_open @ lora_row @ lora_row @ ''</typemap>'' @ nl
                      @ lato_row @ blank @ blank @ lato_tail)])"
  by code_simp

lemma rows_after_4:
  "fontMappings (offline_world (Some (two_fonts @
      [(''type.xml'', typemap_open @ blank @ blank @ blank @ blank @ ''</typemap>'' @ nl
                      @ lato_row @ lato_head @ nl @ lora_row @ lora_row @ lato_tail)])))
   = [\<lparr>map_name = ''Lato'', map_family = ''Lato'', map_path = ''/fonts/Lato-Regular.ttf''\<rparr>,
      \<lparr>map_name = ''Lato'', map_family = ''Lato'', map_path = ''/fonts/Lato'' @ nl @ ''  <type name=''\<rparr>,
      \<lparr>map_name = ''Lora'', map_family = ''Lora'', map_path = ''/fonts/Lora-Regular.ttf''\<rparr>]"
  by code_simp

lemma rows_after_5:
  "fontMappings (offline_world (Some (two_fonts @
      [(''type.xml'', typemap_open @ lora_row @ lora_row @ ''</typemap>'' @ nl
                      @ lato_row @ blank @ blank @ lato_tail)])))
   = [\<lparr>map_name = ''Lora'', map_family = ''Lora'', map_path = ''/fonts/Lora-Regular.ttf''\<rparr>,
      \<lparr>map_name = ''Lora'', map_family = ''Lora'', map_path = ''/fonts/Lora-Regular.ttf''\<rparr>,
      \<lparr>map_name = ''Lato'', map_family = ''Lato'', map_path = ''/fonts/Lato-Regular.ttf''\<rparr>]"
  by code_simp

subsection \<open>Lemmas on the font-face pass\<close>



section \<open>The claims\<close>

text \<open>
  C1. The extractor is claimed to return every primary family name exactly once. It removes
  duplicates among the captured values and strips the fallback chain afterwards, so two
  captures that differ only in their fallbacks leave the same name twice: here the family
  of the inline style and the family of the attribute of one element.
\<close>

theorem extractFontsFromSVG_duplicate:
  "extractFontsFromSVG ''<text style=\"font-family:Arial\" font-family=\"Arial, Helvetica\">Hi</text>''
     = [''Arial'', ''Arial'']"
  by code_simp



text \<open>
  C3. Two calls in a row for one family do not leave the same rows. The position of
  \<open></typemap>\<close> is taken before the stale rows are removed and used after, when the text
  is shorter. From a new directory, the second call for Lato writes the rows behind
  \<open></typemap>\<close> and leaves the element empty. After the calls for Lato, Lora and Lato, a
  call for Lora splices its rows into the middle of a Lato row, and the next call for
  Lora removes part of that row with its own: the rows read back from the file after
  the first and after the second of these two calls differ.
\<close>

theorem register_twice_changes_rows:
  "readFile (updateTypeXmlFile ''Lato'' (offline_world (Some two_fonts))) ''type.xml''
     = Some (typemap_open @ lato_row @ lato_row @ ''</typemap>'')
   \<and> readFile (updateTypeXmlFile ''Lato'' (updateTypeXmlFile ''Lato'' (offline_world (Some two_fonts))))
       ''type.xml''
     = Some (typemap_open @ blank @ blank @ ''</typemap>'' @ nl @ lato_row @ lato_row)
   \<and> (let w = updateTypeXmlFile ''Lato'' (updateTypeXmlFile ''Lora''
                 (updateTypeXmlFile ''Lato'' (offline_world (Some two_fonts))));
           first = updateTypeXmlFile ''Lora'' w;
           second = updateTypeXmlFile ''Lora'' first
       in fontMappings first
            = [\<lparr>map_name = ''Lato'', map_family = ''Lato'', map_path = ''/fonts/Lato-Regular.ttf''\<rparr>,
               \<lparr>map_name = ''Lato'', map_family = ''Lato'', map_path = ''/fonts/Lato'' @ nl @ ''  <type name=''\<rparr>,
               \<lparr>map_name = ''Lora'', map_family = ''Lora'', map_path = ''/fonts/Lora-Regular.ttf''\<rparr>]
          \<and> fontMappings second
            = [\<lparr>map_name = ''Lora'', map_family = ''Lora'', map_path = ''/fonts/Lora-Regular.ttf''\<rparr>,
               \<lparr>map_name = ''Lora'', map_family = ''Lora'', map_path = ''/fonts/Lora-Regular.ttf''\<rparr>,
               \<lparr>map_name = ''Lato'', map_family = ''Lato'', map_path = ''/fonts/Lato-Regular.ttf''\<rparr>]
          \<and> set (fontMappings first) \<noteq> set (fontMappings second))"
proof -
  have w1: "updateTypeXmlFile ''Lato'' (offline_world (Some two_fonts))
      = offline_world (Some (two_fonts @
          [(''type.xml'', typemap_open @ lato_row @ lato_row @ ''</typemap>'')]))"
    by (subst register_offline) (simp only: register_lato_1)
  have w1b: "updateTypeXmlFile ''Lato'' (offline_world (Some (two_fonts @
          [(''type.xml'', typemap_open @ lato_row @ lato_row @ ''</typemap>'')])))
      = offline_world (Some (two_fonts @
          [(''type.xml'', typemap_open @ blank @ blank @ ''</typemap>'' @ nl @ lato_row @ lato_row)]))"
    by (subst register_offline) (simp only: register_lato_again)
  have w2: "updateTypeXmlFile ''Lora'' (offline_world (Some (two_fonts @
          [(''type.xml'', typemap_open @ lato_row @ lato_row @ ''</typemap>'')])))
      = offline_world (Some (two_fonts @
          [(''type.xml'', typemap_open @ lato_row @ lato_row @ lora_row @ lora_row @ ''</typemap>'')]))"
    by (subst register_offline) (simp only: register_lora_2)
  have w3: "updateTypeXmlFile ''Lato'' (offline_world (Some (two_fonts @
          [(''type.xml'', typemap_open @ lato_row @ lato_row @ lora_row @ lora_row @ ''</typemap>'')])))
      = offline_world (Some (two_fonts @
          [(''type.xml'', typemap_open @ blank @ blank @ lora_row @ lora_row @ ''</typemap>'' @ nl
                          @ lato_row @ lato_row)]))"
    by (subst register_offline) (simp only: register_lato_3)
  have w4: "updateTypeXmlFile ''Lora'' (offline_world (Some (two_fonts @
          [(''type.xml'', typemap_open @ blank @ blank @ lora_row @ lora_row @ ''</typemap>'' @ nl
                          @ lato_row @ lato_row)])))
      = offline_world (Some (two_fonts @
          [(''type.xml'', typemap_open @ blank @ blank @ blank @ blank @ ''</typemap>'' @ nl
                          @ lato_row @ lato_head @ nl @ lora_row @ lora_row @ lato_tail)]))"
    by (subst register_offline) (simp only: register_lora_4)
  have w5: "updateTypeXmlFile ''Lora'' (offline_world (Some (two_fonts @
          [(''type.xml'', typemap_open @ blank @ blank @ blank @ blank @ ''</typemap>'' @ nl
                          @ lato_row @ lato_head @ nl @ lora_row @ lora_row @ lato_tail)])))
      = offline_world (Some (two_fonts @
          [(''type.xml'', typemap_open @ lora_row @ lora_row @ ''</typemap>'' @ nl
                          @ lato_row @ blank @ blank @ lato_tail)]))"
    by (subst register_offline) (simp only: register_lora_5)
  have r1: "readFile (offline_world (Some (two_fonts @ [(''type.xml'', x)]))) ''type.xml'' = Some x"
    for x
    by (simp add: readFile_def offline_world_def two_fonts_def)
  let ?broken = "\<lparr>map_name = ''Lato'', map_family = ''Lato'',
                    map_path = ''/fonts/Lato'' @ nl @ ''  <type name=''\<rparr>"
  let ?lato = "\<lparr>map_name = ''Lato'', map_family = ''Lato'', map_path = ''/fonts/Lato-Regular.ttf''\<rparr>"
  let ?lora = "\<lparr>map_name = ''Lora'', map_family = ''Lora'', map_path = ''/fonts/Lora-Regular.ttf''\<rparr>"
  have "?broken \<in> set [?lato, ?broken, ?lora]" by simp
  moreover have "?broken \<notin> set [?lora, ?lora, ?lato]" by (simp add: nl_def)
  ultimately have differ: "set [?lato, ?broken, ?lora] \<noteq> set [?lora, ?lora, ?lato]"
    by metis
  show ?thesis
    unfolding Let_def w1 w1b w2 w3 w4 w5 r1 rows_after_4 rows_after_5
    using differ by (simp only: simp_thms)
qed

text \<open>
  C4, as amended. For a name on the system list the resolver returns \<open>false\<close>, the value
  it also returns for a failed download, and leaves the world as it is: no request is
  made and the fonts directory, the mapping file in it, is untouched. The run then
  lists the name as found locally or, when no local file matches it, as failed.
\<close>

theorem system_font_not_downloaded:
  assumes "fontName \<in> set systemFonts"
  shows "downloadGoogleFont fontName w = (False, w)
         \<and> resolve_fonts [fontName] res w =
             (if fontExistsLocally fontName (readdirSync w)
              then res\<lparr>fontsFoundLocally := fontsFoundLocally res @ [fontName]\<rparr>
              else res\<lparr>fontsFailed := fontsFailed res @ [fontName]\<rparr>, w)"
  using assms by (simp add: downloadGoogleFont_def downloadGoogleFont_try_def)

theorem system_font_not_downloaded_witness:
  "''Arial'' \<in> set systemFonts
   \<and> downloadGoogleFont ''Arial'' (offline_world (Some [])) = (False, offline_world (Some []))"
proof -
  have listed: "''Arial'' \<in> set systemFonts" by (simp add: systemFonts_def)
  from system_font_not_downloaded [OF listed] listed show ?thesis by simp
qed

text \<open>
  C4 as stated fails: the outcome for the system font Arial is the outcome for a font
  whose download fails, and the run reports Arial among the failed fonts.
\<close>

theorem system_font_reported_failed:
  "fst (downloadGoogleFont ''Arial'' (offline_world (Some [])))
     = fst (downloadGoogleFont ''Roboto'' (offline_world (Some [])))
   \<and> fontsFailed (fst (ensureFontsAvailable (Inr ''<text font-family=\"Arial\">Hi</text>'')
                         (offline_world (Some [])))) = [''Arial'']"
  by code_simp












text \<open>
  C8. The defaults are taken only when an attribute is absent. A value that is present
  and does not parse, as \<open>width="auto"\<close>, gives \<open>NaN\<close>, which reaches the scale factor and
  both offsets and is written into the transform of the document.
\<close>

theorem unparseable_dimension_gives_NaN:
  "originalDimensions ''<svg width=\"auto\" height=\"100\"><g/></svg>'' = (NaN, Num 100)
   \<and> scalingTransform (Num 102) (originalDimensions ''<svg width=\"auto\" height=\"100\"><g/></svg>'')
       = \<lparr>scaleFactor = NaN, centerX = NaN, centerY = NaN\<rparr>
   \<and> modifySvgDimensions num (Num 102) ''<svg width=\"auto\" height=\"100\"><g/></svg>''
       = ''<svg width=\"'' @ num (Num 102) @ ''pt\" height=\"'' @ num (Num 102)
          @ ''pt\" viewBox=\"0 0 '' @ num (Num 102) @ '' '' @ num (Num 102)
          @ ''\" xmlns=\"http://www.w3.org/2000/svg\" xmlns:xlink=\"http://www.w3.org/1999/xlink\" xmlns:dc=\"http://purl.org/dc/elements/1.1/\" xmlns:cc=\"http://creativecommons.org/ns#\" xmlns:se=\"http://www.pixopa.com\">''
          @ ''<g transform=\"translate('' @ num NaN @ '', '' @ num NaN @ '') scale('' @ num NaN @ '')\">''
          @ ''<g/></g></svg>''"
proof -
  have dims: "originalDimensions ''<svg width=\"auto\" height=\"100\"><g/></svg>'' = (NaN, Num 100)"
    by code_simp
  have tr: "scalingTransform (Num 102) (NaN, Num 100)
              = \<lparr>scaleFactor = NaN, centerX = NaN, centerY = NaN\<rparr>"
    by code_simp
  have tag: "rx_first True svgTagRegex ''<svg width=\"auto\" height=\"100\"><g/></svg>''
               = Some \<lparr>index = 0, gap = [], whole = ''<svg width=\"auto\" height=\"100\">'', groups = []\<rparr>"
    by code_simp
  have tail: "replace_str (after_match ''<svg width=\"auto\" height=\"100\"><g/></svg>''
               \<lparr>index = 0, gap = [], whole = ''<svg width=\"auto\" height=\"100\">'', groups = []\<rparr>)
             ''</svg>'' [] = ''<g/>''"
    by code_simp
  have doc: "modifySvgDimensions num (Num 102) ''<svg width=\"auto\" height=\"100\"><g/></svg>''
       = ''<svg width=\"'' @ num (Num 102) @ ''pt\" height=\"'' @ num (Num 102)
          @ ''pt\" viewBox=\"0 0 '' @ num (Num 102) @ '' '' @ num (Num 102)
          @ ''\" xmlns=\"http://www.w3.org/2000/svg\" xmlns:xlink=\"http://www.w3.org/1999/xlink\" xmlns:dc=\"http://purl.org/dc/elements/1.1/\" xmlns:cc=\"http://creativecommons.org/ns#\" xmlns:se=\"http://www.pixopa.com\">''
          @ ''<g transform=\"translate('' @ num NaN @ '', '' @ num NaN @ '') scale('' @ num NaN @ '')\">''
          @ ''<g/></g></svg>''"
    unfolding modifySvgDimensions_def dims tr tag by (simp add: Let_def tail)
  show ?thesis
    using dims tr doc by (simp only: simp_thms)
qed

text \<open>
  C9. Without an API key the resolver throws the error with the descriptive reason and
  catches it itself, returning \<open>false\<close>. The run lists the font as failed and goes on to
  the next font, but nothing is added to \<open>errors\<close>: the reason is not in the report.
\<close>

theorem missing_key_reason_not_reported:
  "fst (downloadGoogleFont_try ''Roboto'' (offline_world (Some [])))
     = Inl ''Google Fonts API key not configured - set GOOGLE_FONTS_API_KEY environment variable''
   \<and> fst (ensureFontsAvailable
            (Inr ''<text font-family=\"Roboto\">a</text><text font-family=\"Lato\">b</text>'')
            (offline_world (Some [])))
     = \<lparr>fontsDetected = [''Roboto'', ''Lato''], fontsFoundLocally = [], fontsDownloaded = [],
        fontsFailed = [''Roboto'', ''Lato''], errors = []\<rparr>"
  by code_simp



end
